theory Spec2Isabelle
  imports Complex_Main
begin

section \<open>Python values and the operations \<open>get_news\<close> applies to them\<close>

text \<open>
  \<open>src/news_bot.py\<close> is a Telegram bot whose one piece of logic is \<open>get_news\<close>
  (lines 43-87): it resolves a topic to a search phrase, builds the request URL,
  fetches and decodes a JSON body, and renders the first five articles as Markdown.

  A Python \<open>str\<close> is a \<open>string\<close>. The characters the code inspects or inserts by itself
  (the four escaped characters, the backslash, the delimiters of the f-strings) are
  ASCII; the warning sign and the bullet of the message texts are written as their
  UTF-8 bytes, so text outside ASCII is carried in UTF-8.

  The decoded body is whatever \<open>json.loads\<close> can produce: \<open>None\<close>, a bool, an int, a
  float, a str, a list or a dict. A dict is an association list read with \<open>map_of\<close>
  (one binding per key; should a list repeat a key, its first pair is the binding).
  Of a float only its truth value is ever consulted (zero or not).
\<close>

datatype pyval =
    PNone
  | PBool bool
  | PInt int
  | PFloat real
  | PStr string
  | PList "pyval list"
  | PDict "(string \<times> pyval) list"

text \<open>
  The exceptions that can arise in \<open>get_news\<close>. \<open>RequestError\<close> stands for any
  instance of \<open>httpx.RequestError\<close> (transport failures), \<open>HTTPStatusError\<close> for what
  \<open>response.raise_for_status()\<close> raises: in httpx both derive from \<open>HTTPError\<close> and
  neither from the other. \<open>SliceOfDict\<close> is what \<open>d[:5]\<close> raises on a dict (a
  \<open>TypeError\<close> for the unhashable slice, a \<open>KeyError\<close> from Python 3.12 on).
\<close>

datatype exn =
    RequestError
  | HTTPStatusError
  | JSONDecodeError
  | AttributeError
  | TypeError
  | SliceOfDict

text \<open>Truth value of a Python object, as \<open>not x\<close> tests it.\<close>

fun truthy :: "pyval \<Rightarrow> bool" where
  "truthy PNone = False"
| "truthy (PBool b) = b"
| "truthy (PInt i) = (i \<noteq> 0)"
| "truthy (PFloat x) = (x \<noteq> 0)"
| "truthy (PStr s) = (s \<noteq> [])"
| "truthy (PList xs) = (xs \<noteq> [])"
| "truthy (PDict d) = (d \<noteq> [])"

text \<open>\<open>x.get(key, default)\<close>: only a dict has the method.\<close>

fun py_get :: "pyval \<Rightarrow> string \<Rightarrow> pyval \<Rightarrow> exn + pyval" where
  "py_get (PDict d) key dflt = Inr (case map_of d key of Some v \<Rightarrow> v | None \<Rightarrow> dflt)"
| "py_get _ key dflt = Inl AttributeError"

text \<open>
  \<open>x[:5]\<close>: lists and strings are sliced, anything else raises. (A string is cut
  after five \<open>char\<close>s here; all that the code observes of the result is whether it is
  empty and that its items are strings.)
\<close>

fun py_slice5 :: "pyval \<Rightarrow> exn + pyval" where
  "py_slice5 (PList xs) = Inr (PList (take 5 xs))"
| "py_slice5 (PStr s) = Inr (PStr (take 5 s))"
| "py_slice5 (PDict d) = Inl SliceOfDict"
| "py_slice5 _ = Inl TypeError"

text \<open>\<open>for article in x\<close>: the items a loop over \<open>x\<close> visits.\<close>

fun py_iter :: "pyval \<Rightarrow> exn + pyval list" where
  "py_iter (PList xs) = Inr xs"
| "py_iter (PStr s) = Inr (map (\<lambda>c. PStr [c]) s)"
| "py_iter (PDict d) = Inr (map PStr (remdups (map fst d)))"
| "py_iter _ = Inl TypeError"

text \<open>
  \<open>s.replace(old, new)\<close> where \<open>old\<close> is a single character, the only form the
  source uses: every occurrence of \<open>old\<close> becomes \<open>new\<close>, left to right.
\<close>

definition str_replace :: "char \<Rightarrow> string \<Rightarrow> string \<Rightarrow> string" where
  "str_replace old new s = concat (map (\<lambda>c. if c = old then new else [c]) s)"

text \<open>
  The chain of four \<open>replace\<close> calls of lines 79-81, applied to a string.
  \<open>CHR 0x5C\<close> is the backslash.
\<close>

definition escape_chain :: "string \<Rightarrow> string" where
  "escape_chain s =
     str_replace (CHR ''*'') [CHR 0x5C, CHR ''*'']
       (str_replace (CHR ''_'') [CHR 0x5C, CHR ''_'']
         (str_replace (CHR '']'') [CHR 0x5C, CHR '']'']
           (str_replace (CHR ''['') [CHR 0x5C, CHR ''['']  s)))"

text \<open>
  The same chain on an arbitrary value: only a \<open>str\<close> has \<open>replace\<close>; the first
  call raises on anything else, and the later calls receive a \<open>str\<close>.
\<close>

fun py_escape :: "pyval \<Rightarrow> exn + string" where
  "py_escape (PStr s) = Inr (escape_chain s)"
| "py_escape _ = Inl AttributeError"

text \<open>
  A value interpolated into an f-string: a \<open>str\<close> is inserted as it is, \<open>None\<close>
  and the booleans by their names, and a number, list or dict through Python's
  builtin \<open>str()\<close>, which is a parameter of the model.
\<close>

fun fstr :: "(pyval \<Rightarrow> string) \<Rightarrow> pyval \<Rightarrow> string" where
  "fstr py_str (PStr s) = s"
| "fstr py_str PNone = ''None''"
| "fstr py_str (PBool True) = ''True''"
| "fstr py_str (PBool False) = ''False''"
| "fstr py_str v = py_str v"

section \<open>\<open>get_news\<close>\<close>

subsection \<open>Query resolution and request URL (lines 44-52)\<close>

definition query_map :: "(string \<times> string) list" where
  "query_map =
     [(''stocks'', ''stock market''),
      (''ai'', ''artificial intelligence''),
      (''crypto'', ''cryptocurrency''),
      (''tech'', ''technology'')]"

text \<open>Line 50: \<open>query = query_map.get(topic, topic)\<close>.\<close>

definition resolve_query :: "string \<Rightarrow> string" where
  "resolve_query topic = (case map_of query_map topic of Some phrase \<Rightarrow> phrase | None \<Rightarrow> topic)"

text \<open>
  \<open>NEWS_API_KEY = os.getenv("NEWS_API_KEY")\<close> is a \<open>str\<close> or \<open>None\<close>; the f-string
  of line 52 prints \<open>None\<close> as the text \<open>None\<close>.
\<close>

fun key_text :: "string option \<Rightarrow> string" where
  "key_text (Some k) = k"
| "key_text None = ''None''"

text \<open>Line 52, the f-string that builds the URL from the resolved query.\<close>

definition request_url :: "string option \<Rightarrow> string \<Rightarrow> string" where
  "request_url api_key query =
     ''https://newsapi.org/v2/everything?q='' @ query
       @ ''&language=en&sortBy=publishedAt&apiKey='' @ key_text api_key"

subsection \<open>The fetch (lines 54-61)\<close>

text \<open>
  What the provider answers to one GET. \<open>client.get(url)\<close> either raises a
  \<open>httpx.RequestError\<close> (no response: \<open>None\<close>) or returns a response;
  \<open>raise_for_status()\<close> raises \<open>HTTPStatusError\<close> unless the status is a success;
  \<open>response.json()\<close> raises \<open>JSONDecodeError\<close> when the body is not JSON
  (\<open>json_value = None\<close>) and returns the decoded value otherwise.
\<close>

record response =
  is_success :: bool
  json_value :: "pyval option"

type_synonym client = "string \<Rightarrow> response option"

text \<open>The body of the \<open>try\<close> block, lines 55-58.\<close>

definition fetch_data :: "client \<Rightarrow> string \<Rightarrow> exn + pyval" where
  "fetch_data client_get url =
     (case client_get url of
        None \<Rightarrow> Inl RequestError
      | Some resp \<Rightarrow>
          if is_success resp then
            (case json_value resp of None \<Rightarrow> Inl JSONDecodeError | Some data \<Rightarrow> Inr data)
          else Inl HTTPStatusError)"

text \<open>Line 59: \<open>except (httpx.RequestError, json.JSONDecodeError)\<close>.\<close>

definition caught :: "exn \<Rightarrow> bool" where
  "caught e = (e = RequestError \<or> e = JSONDecodeError)"

definition warning_sign :: string where
  "warning_sign = [CHR 0xE2, CHR 0x9A, CHR 0xA0, CHR 0xEF, CHR 0xB8, CHR 0x8F]"

text \<open>Line 61. \<open>CHR 0x27\<close> is the apostrophe.\<close>

definition fetch_failed_message :: string where
  "fetch_failed_message =
     warning_sign @ '' Sorry, I couldn'' @ [CHR 0x27]
       @ ''t fetch the news right now. Please try again later.''"

subsection \<open>Rendering (lines 63-87)\<close>

text \<open>Line 66.\<close>

definition no_articles_message :: "string \<Rightarrow> string" where
  "no_articles_message query =
     warning_sign @ '' No recent articles found for '' @ [CHR 0x27] @ query @ [CHR 0x27] @ ''.''"

definition bullet :: string where
  "bullet = [CHR 0xE2, CHR 0x80, CHR 0xA2]"

text \<open>Lines 83-85: the three f-strings appended for one article.\<close>

definition block_text :: "string \<Rightarrow> string \<Rightarrow> string \<Rightarrow> string \<Rightarrow> string" where
  "block_text title url description source =
     bullet @ '' *['' @ title @ '']('' @ url @ '')*\<newline>''
       @ ''  `'' @ description @ ''`\<newline>''
       @ ''  *Source:* '' @ source @ ''\<newline>\<newline>''"

text \<open>Lines 75-77: \<open>if not x: x = "..."\<close>.\<close>

definition or_default :: "pyval \<Rightarrow> string \<Rightarrow> pyval" where
  "or_default v dflt = (if truthy v then v else PStr dflt)"

text \<open>
  Sequencing of statements that may raise: an exception of the first leaves the
  function, otherwise the rest runs with the value obtained.
\<close>

definition and_then :: "exn + 'a \<Rightarrow> ('a \<Rightarrow> exn + 'b) \<Rightarrow> exn + 'b" where
  "and_then r f = (case r of Inl e \<Rightarrow> Inl e | Inr x \<Rightarrow> f x)"

text \<open>The loop body, lines 70-85: the text appended for one article, or the exception.\<close>

definition article_block :: "(pyval \<Rightarrow> string) \<Rightarrow> pyval \<Rightarrow> exn + string" where
  "article_block py_str article =
     and_then (py_get article ''title'' (PStr ''No title'')) (\<lambda>title0.
     and_then (py_get article ''url'' (PStr [])) (\<lambda>url.
     and_then (py_get article ''description'' (PStr ''No description available.'')) (\<lambda>description0.
     and_then (py_get article ''source'' (PDict [])) (\<lambda>source_obj.
     and_then (py_get source_obj ''name'' (PStr ''Unknown Source'')) (\<lambda>source0.
     and_then (py_escape (or_default title0 ''No title'')) (\<lambda>title.
     and_then (py_escape (or_default description0 ''No description available.'')) (\<lambda>description.
     and_then (py_escape (or_default source0 ''Unknown Source'')) (\<lambda>source.
     Inr (block_text title (fstr py_str url) description source)))))))))"

text \<open>Lines 68-87: the loop, with \<open>text\<close> as accumulator.\<close>

fun render_loop :: "(pyval \<Rightarrow> string) \<Rightarrow> string \<Rightarrow> pyval list \<Rightarrow> exn + string" where
  "render_loop py_str text [] = Inr text"
| "render_loop py_str text (article # rest) =
     (case article_block py_str article of
        Inl e \<Rightarrow> Inl e
      | Inr block \<Rightarrow> render_loop py_str (text @ block) rest)"

text \<open>Lines 65-87, from the sliced \<open>articles\<close> value on.\<close>

definition render_articles :: "(pyval \<Rightarrow> string) \<Rightarrow> string \<Rightarrow> pyval \<Rightarrow> exn + string" where
  "render_articles py_str query articles =
     (if truthy articles then
        (case py_iter articles of
           Inl e \<Rightarrow> Inl e
         | Inr items \<Rightarrow> render_loop py_str [] items)
      else Inr (no_articles_message query))"

text \<open>Lines 63-87: what \<open>get_news\<close> does with the decoded body.\<close>

definition render_data :: "(pyval \<Rightarrow> string) \<Rightarrow> string \<Rightarrow> pyval \<Rightarrow> exn + string" where
  "render_data py_str query data =
     (case py_get data ''articles'' (PList []) of
        Inl e \<Rightarrow> Inl e
      | Inr found \<Rightarrow>
          (case py_slice5 found of
             Inl e \<Rightarrow> Inl e
           | Inr articles \<Rightarrow> render_articles py_str query articles))"

text \<open>
  \<open>get_news(topic)\<close>, lines 43-87. The result is the returned text (\<open>Inr\<close>) or
  the exception that leaves the function (\<open>Inl\<close>). The \<open>print\<close> of line 60 is not
  modelled.
\<close>

definition get_news :: "string option \<Rightarrow> (pyval \<Rightarrow> string) \<Rightarrow> client \<Rightarrow> string \<Rightarrow> exn + string" where
  "get_news api_key py_str client_get topic =
     (let query = resolve_query topic;
          url = request_url api_key query
      in case fetch_data client_get url of
           Inl e \<Rightarrow> if caught e then Inr fetch_failed_message else Inl e
         | Inr data \<Rightarrow> render_data py_str query data)"

subsection \<open>\<open>search_news\<close> (lines 114-126)\<close>

text \<open>
  The handler of free-text messages reads \<open>update.message.text\<close> and awaits
  \<open>get_news(search_query)\<close>. \<open>search_news_request\<close> is the URL that call requests,
  \<open>search_news_message\<close> the \<open>news_message\<close> it obtains.
\<close>

definition search_news_request :: "string option \<Rightarrow> string \<Rightarrow> string" where
  "search_news_request api_key message_text =
     (let search_query = message_text
      in request_url api_key (resolve_query search_query))"

definition search_news_message ::
    "string option \<Rightarrow> (pyval \<Rightarrow> string) \<Rightarrow> client \<Rightarrow> string \<Rightarrow> exn + string" where
  "search_news_message api_key py_str client_get message_text =
     (let search_query = message_text
      in get_news api_key py_str client_get search_query)"

section \<open>The escaping as the specification words it\<close>

text \<open>
  One pass over the string: each of the four characters \<open>[\<close>, \<open>]\<close>, \<open>_\<close>, \<open>*\<close> gets a
  backslash in front, every other character stays.
\<close>

definition markup_chars :: "char list" where
  "markup_chars = [CHR ''['', CHR '']'', CHR ''_'', CHR ''*'']"

definition escape_char :: "char \<Rightarrow> string" where
  "escape_char c = (if c \<in> set markup_chars then [CHR 0x5C, c] else [c])"

definition escape_spec :: "string \<Rightarrow> string" where
  "escape_spec s = concat (map escape_char s)"

section \<open>Articles that can be rendered\<close>

text \<open>
  A field value on which lines 75-81 do not raise: absent, a \<open>str\<close>, or a value
  that \<open>not\<close> takes for false (\<open>None\<close>, \<open>False\<close>, \<open>0\<close>, an empty list or dict),
  which line 75, 76 or 77 replaces by the default before \<open>replace\<close> is called.
\<close>

definition field_ok :: "pyval option \<Rightarrow> bool" where
  "field_ok f = (case f of None \<Rightarrow> True | Some (PStr s) \<Rightarrow> True | Some v \<Rightarrow> \<not> truthy v)"

text \<open>
  An article on which the loop body does not raise: a dict whose \<open>title\<close> and
  \<open>description\<close> are such fields and whose \<open>source\<close> is absent or a dict with such
  a \<open>name\<close>. The \<open>url\<close> may be anything.
\<close>

fun renderable :: "pyval \<Rightarrow> bool" where
  "renderable (PDict a) =
     (field_ok (map_of a ''title'') \<and> field_ok (map_of a ''description'')
      \<and> (case map_of a ''source'' of
            None \<Rightarrow> True
          | Some (PDict s) \<Rightarrow> field_ok (map_of s ''name'')
          | Some _ \<Rightarrow> False))"
| "renderable _ = False"

text \<open>The nested field \<open>source.name\<close> of an article, if there is one.\<close>

definition source_name :: "(string \<times> pyval) list \<Rightarrow> pyval option" where
  "source_name a = (case map_of a ''source'' of Some (PDict s) \<Rightarrow> map_of s ''name'' | _ \<Rightarrow> None)"

text \<open>
  The text shown for a field, as the specification words it: the field's string,
  or the default when the field is absent, null or empty.
\<close>

definition field_text :: "pyval option \<Rightarrow> string \<Rightarrow> string" where
  "field_text f dflt = (case f of Some (PStr s) \<Rightarrow> (if s = [] then dflt else s) | _ \<Rightarrow> dflt)"

text \<open>The text line 83 puts between the parentheses: the \<open>url\<close> field, empty if absent.\<close>

definition url_text :: "(pyval \<Rightarrow> string) \<Rightarrow> (string \<times> pyval) list \<Rightarrow> string" where
  "url_text py_str a = (case map_of a ''url'' of None \<Rightarrow> [] | Some u \<Rightarrow> fstr py_str u)"

section \<open>Properties\<close>

lemma str_replace_Nil [simp]: "str_replace old new [] = []"
  by (simp add: str_replace_def)

lemma str_replace_Cons [simp]:
  "str_replace old new (c # s) = (if c = old then new else [c]) @ str_replace old new s"
  by (simp add: str_replace_def)

lemma str_replace_append: "str_replace old new (a @ b) = str_replace old new a @ str_replace old new b"
  by (simp add: str_replace_def)

lemma escape_chain_Nil [simp]: "escape_chain [] = []"
  by (simp add: escape_chain_def)

lemma escape_chain_append: "escape_chain (a @ b) = escape_chain a @ escape_chain b"
  by (simp add: escape_chain_def str_replace_append)

lemma escape_chain_single: "escape_chain [c] = escape_char c"
  by (simp add: escape_chain_def escape_char_def markup_chars_def)

lemma escape_chain_Cons: "escape_chain (c # s) = escape_char c @ escape_chain s"
  using escape_chain_append [of "[c]" s] by (simp add: escape_chain_single)

lemma escape_chain_is_spec: "escape_chain s = escape_spec s"
  by (induction s) (simp_all add: escape_chain_Cons escape_spec_def)

text \<open>
  C9. The escaping of lines 79-81 distributes over concatenation:
  escaping \<open>a @ b\<close> gives the escape of \<open>a\<close> followed by the escape of \<open>b\<close>.
\<close>

theorem escape_chain_homomorphism: "escape_chain (a @ b) = escape_chain a @ escape_chain b"
  by (rule escape_chain_append)

subsection \<open>Query resolution and the request\<close>

lemma resolve_query_other:
  "topic \<notin> {''stocks'', ''ai'', ''crypto'', ''tech''} \<Longrightarrow> resolve_query topic = topic"
  by (simp add: resolve_query_def query_map_def)

text \<open>
  C4. The four category keys resolve to their phrases (\<open>stocks\<close> to "stock market",
  \<open>ai\<close> to "artificial intelligence", \<open>crypto\<close> to "cryptocurrency", \<open>tech\<close> to
  "technology"); every other topic, the empty string included, resolves to itself.
\<close>

theorem resolve_query_table:
  "resolve_query ''stocks'' = ''stock market''
   \<and> resolve_query ''ai'' = ''artificial intelligence''
   \<and> resolve_query ''crypto'' = ''cryptocurrency''
   \<and> resolve_query ''tech'' = ''technology''
   \<and> (topic \<notin> {''stocks'', ''ai'', ''crypto'', ''tech''} \<longrightarrow> resolve_query topic = topic)
   \<and> resolve_query [] = []"
  by (simp add: resolve_query_def query_map_def)

theorem resolve_query_table_witness:
  "''Tesla'' \<notin> {''stocks'', ''ai'', ''crypto'', ''tech''} \<and> resolve_query ''Tesla'' = ''Tesla''"
  using resolve_query_table [of "''Tesla''"] by simp

lemma get_news_client_at_url:
  "get_news api_key py_str client_get topic =
   get_news api_key py_str (\<lambda>u. client_get (request_url api_key (resolve_query topic))) topic"
  by (simp add: get_news_def fetch_data_def Let_def)

text \<open>
  C10. The URL requested for a topic is the resolved query placed as it is between
  the fixed text up to \<open>q=\<close> and the fixed text from \<open>&language\<close> on (which ends
  with the API key): \<open>get_news\<close> asks the client for exactly that URL. Nothing is
  URL-encoded: for the free text \<open>a&b=c\<close> the characters \<open>&\<close> and \<open>=\<close> stand in the
  URL unchanged.
\<close>

theorem request_url_interpolation:
  "request_url api_key (resolve_query topic) =
     ''https://newsapi.org/v2/everything?q='' @ resolve_query topic
       @ ''&language=en&sortBy=publishedAt&apiKey='' @ key_text api_key
   \<and> get_news api_key py_str client_get topic =
     get_news api_key py_str
       (\<lambda>u. client_get (''https://newsapi.org/v2/everything?q='' @ resolve_query topic
              @ ''&language=en&sortBy=publishedAt&apiKey='' @ key_text api_key)) topic
   \<and> request_url (Some ''K'') (resolve_query ''a&b=c'') =
     ''https://newsapi.org/v2/everything?q=a&b=c&language=en&sortBy=publishedAt&apiKey=K''"
  by (simp add: get_news_def fetch_data_def Let_def request_url_def resolve_query_def query_map_def)

text \<open>
  C2, as stated, fails: the free-text message \<open>ai\<close> is not used verbatim, the query
  resolved and sent for it is "artificial intelligence".
\<close>

theorem search_news_key_counterexample:
  "resolve_query ''ai'' \<noteq> ''ai''
   \<and> search_news_request (Some ''K'') ''ai'' =
     ''https://newsapi.org/v2/everything?q=artificial intelligence&language=en&sortBy=publishedAt&apiKey=K''"
  by (simp add: search_news_request_def request_url_def resolve_query_def query_map_def)

text \<open>
  C2, amended. A free-text message that is none of the four category keys is used
  verbatim: the resolved query is the message itself, and it stands unmodified in
  the URL that \<open>search_news\<close> has \<open>get_news\<close> request.
\<close>

theorem search_news_verbatim:
  assumes "message_text \<notin> {''stocks'', ''ai'', ''crypto'', ''tech''}"
  shows "resolve_query message_text = message_text
   \<and> search_news_request api_key message_text =
     ''https://newsapi.org/v2/everything?q='' @ message_text
       @ ''&language=en&sortBy=publishedAt&apiKey='' @ key_text api_key
   \<and> search_news_message api_key py_str client_get message_text =
     search_news_message api_key py_str
       (\<lambda>u. client_get (''https://newsapi.org/v2/everything?q='' @ message_text
              @ ''&language=en&sortBy=publishedAt&apiKey='' @ key_text api_key)) message_text"
proof -
  have q: "resolve_query message_text = message_text"
    using assms by (rule resolve_query_other)
  have "request_url api_key (resolve_query message_text) =
      ''https://newsapi.org/v2/everything?q='' @ message_text
        @ ''&language=en&sortBy=publishedAt&apiKey='' @ key_text api_key"
    by (simp add: q request_url_def)
  then show ?thesis
    using q get_news_client_at_url [of api_key py_str client_get message_text]
    by (simp add: search_news_request_def search_news_message_def)
qed

theorem search_news_verbatim_witness:
  "''quantum computing'' \<notin> {''stocks'', ''ai'', ''crypto'', ''tech''}
   \<and> resolve_query ''quantum computing'' = ''quantum computing''
   \<and> search_news_request (Some ''K'') ''quantum computing'' =
     ''https://newsapi.org/v2/everything?q=quantum computing&language=en&sortBy=publishedAt&apiKey=K''"
  using search_news_verbatim [of "''quantum computing''" "Some ''K''"] by simp

subsection \<open>Failures of the fetch\<close>

lemma messages_differ: "fetch_failed_message \<noteq> no_articles_message query"
  by (simp add: fetch_failed_message_def no_articles_message_def)

text \<open>
  C1, as stated, fails: after a transport failure \<open>get_news\<close> does not return the
  "no recent articles" message of the query, and a response with a non-success
  status is not caught: \<open>HTTPStatusError\<close> leaves \<open>get_news\<close>.
\<close>

theorem fetch_failure_counterexample:
  "get_news (Some ''K'') (\<lambda>v. []) (\<lambda>u. None) ''ai''
     \<noteq> Inr (no_articles_message (resolve_query ''ai''))
   \<and> get_news (Some ''K'') (\<lambda>v. []) (\<lambda>u. Some \<lparr>is_success = False, json_value = Some (PDict [])\<rparr>) ''ai''
     = Inl HTTPStatusError"
  by (simp add: get_news_def fetch_data_def caught_def Let_def messages_differ)

text \<open>
  C1, amended. When \<open>client.get\<close> raises a transport failure, or the body of a
  successful response is not JSON, the exception is caught inside \<open>get_news\<close>, none
  escapes, and \<open>get_news\<close> returns the fixed apology message of line 61, which is
  not the "no recent articles" message of the query.
\<close>

theorem fetch_failure_apology:
  assumes "client_get (request_url api_key (resolve_query topic)) = None
           \<or> client_get (request_url api_key (resolve_query topic))
               = Some \<lparr>is_success = True, json_value = None\<rparr>"
  shows "get_news api_key py_str client_get topic = Inr fetch_failed_message
         \<and> fetch_failed_message \<noteq> no_articles_message (resolve_query topic)"
  using assms by (auto simp add: get_news_def fetch_data_def caught_def Let_def messages_differ)

theorem fetch_failure_apology_witness:
  "((\<lambda>u. None) (request_url (Some ''K'') (resolve_query ''ai'')) = (None :: response option)
    \<or> (\<lambda>u. None) (request_url (Some ''K'') (resolve_query ''ai''))
               = Some \<lparr>is_success = True, json_value = None\<rparr>)
   \<and> get_news (Some ''K'') (\<lambda>v. []) (\<lambda>u. None) ''ai'' = Inr fetch_failed_message"
  using fetch_failure_apology [of "\<lambda>u. None" "Some ''K''" "''ai''" "\<lambda>v. []"] by simp

text \<open>
  C3 asks that \<open>get_news\<close> always returns a string. It does not: an article whose
  \<open>source\<close> is \<open>null\<close> makes line 73 raise \<open>AttributeError\<close>, and a response with a
  non-success status makes line 57 raise \<open>HTTPStatusError\<close>, which line 59 does not
  catch.
\<close>

theorem get_news_raises:
  "get_news (Some ''K'') (\<lambda>v. [])
     (\<lambda>u. Some \<lparr>is_success = True, json_value = Some (PDict [(''articles'',
        PList [PDict [(''title'', PStr ''T''), (''source'', PNone)]])])\<rparr>) ''ai''
     = Inl AttributeError
   \<and> get_news (Some ''K'') (\<lambda>v. [])
     (\<lambda>u. Some \<lparr>is_success = False, json_value = Some (PDict [])\<rparr>) ''ai''
     = Inl HTTPStatusError"
  by (simp add: get_news_def fetch_data_def caught_def Let_def render_data_def render_articles_def
      article_block_def and_then_def)

subsection \<open>Rendering one article\<close>

lemma escape_field:
  "field_ok f \<Longrightarrow> dflt \<noteq> [] \<Longrightarrow>
   py_escape (or_default (case f of Some v \<Rightarrow> v | None \<Rightarrow> PStr dflt) dflt)
     = Inr (escape_spec (field_text f dflt))"
  by (auto simp add: field_ok_def field_text_def or_default_def escape_chain_is_spec
      split: option.splits pyval.splits)

lemma escape_field_bad:
  "\<not> field_ok f \<Longrightarrow>
   py_escape (or_default (case f of Some v \<Rightarrow> v | None \<Rightarrow> PStr dflt) dflt) = Inl AttributeError"
  by (auto simp add: field_ok_def or_default_def split: option.splits pyval.splits)

lemma article_block_renderable:
  assumes "renderable (PDict a)"
  shows "article_block py_str (PDict a) =
     Inr (block_text (escape_spec (field_text (map_of a ''title'') ''No title''))
            (url_text py_str a)
            (escape_spec (field_text (map_of a ''description'') ''No description available.''))
            (escape_spec (field_text (source_name a) ''Unknown Source'')))"
proof -
  have t: "field_ok (map_of a ''title'')" and d: "field_ok (map_of a ''description'')"
    using assms by simp_all
  have u: "fstr py_str (case map_of a ''url'' of None \<Rightarrow> PStr [] | Some v \<Rightarrow> v) = url_text py_str a"
    by (simp add: url_text_def split: option.splits)
  consider (absent) "map_of a ''source'' = None"
    | (obj) s where "map_of a ''source'' = Some (PDict s)" "field_ok (map_of s ''name'')"
    using assms by (auto split: option.splits pyval.splits)
  then show ?thesis
  proof cases
    case absent
    then have n: "source_name a = None" by (simp add: source_name_def)
    show ?thesis
      using absent escape_field [OF t, of "''No title''"]
        escape_field [OF d, of "''No description available.''"] u
      by (simp add: article_block_def and_then_def n field_text_def or_default_def
          escape_chain_is_spec)
  next
    case obj
    then have n: "source_name a = map_of s ''name''" by (simp add: source_name_def)
    show ?thesis
      using obj escape_field [OF t, of "''No title''"]
        escape_field [OF d, of "''No description available.''"]
        escape_field [OF obj(2), of "''Unknown Source''"] u
      by (simp add: article_block_def and_then_def n)
  qed
qed

lemma py_escape_cases: "py_escape v = Inl AttributeError \<or> (\<exists>s. py_escape v = Inr s)"
  by (cases v) simp_all

lemma article_block_not_renderable:
  assumes "\<not> renderable article"
  shows "article_block py_str article = Inl AttributeError"
proof (cases article)
  case (PDict a)
  show ?thesis
  proof (cases "map_of a ''source''")
    case None
    then have "\<not> field_ok (map_of a ''title'') \<or> \<not> field_ok (map_of a ''description'')"
      using assms PDict by simp
    then show ?thesis
    proof
      assume "\<not> field_ok (map_of a ''title'')"
      from escape_field_bad [OF this, of "''No title''"] show ?thesis
        using PDict None by (simp add: article_block_def and_then_def)
    next
      assume "\<not> field_ok (map_of a ''description'')"
      from escape_field_bad [OF this, of "''No description available.''"] show ?thesis
        using PDict None py_escape_cases [of "or_default (case map_of a ''title'' of None \<Rightarrow> PStr ''No title'' | Some v \<Rightarrow> v) ''No title''"]
        by (auto simp add: article_block_def and_then_def)
    qed
  next
    case (Some src)
    show ?thesis
    proof (cases "\<exists>s. src = PDict s")
      case False
      then have "py_get src ''name'' (PStr ''Unknown Source'') = Inl AttributeError"
        by (cases src) simp_all
      then show ?thesis using PDict Some by (simp add: article_block_def and_then_def)
    next
      case True
      then obtain s where s: "src = PDict s" by blast
      then have "\<not> field_ok (map_of a ''title'') \<or> \<not> field_ok (map_of a ''description'')
          \<or> \<not> field_ok (map_of s ''name'')"
        using assms PDict Some by auto
      then show ?thesis
        using PDict Some s
          escape_field_bad [of "map_of a ''title''" "''No title''"]
          escape_field_bad [of "map_of a ''description''" "''No description available.''"]
          escape_field_bad [of "map_of s ''name''" "''Unknown Source''"]
          py_escape_cases [of "or_default (case map_of a ''title'' of None \<Rightarrow> PStr ''No title'' | Some v \<Rightarrow> v) ''No title''"]
          py_escape_cases [of "or_default (case map_of a ''description'' of None \<Rightarrow> PStr ''No description available.'' | Some v \<Rightarrow> v) ''No description available.''"]
        by (auto simp add: article_block_def and_then_def)
    qed
  qed
qed (simp_all add: article_block_def and_then_def)

lemma escape_char_cases:
  "escape_char = (\<lambda>c. if c \<in> {CHR ''['', CHR '']'', CHR ''_'', CHR ''*''} then [CHR 0x5C, c] else [c])"
  by (rule ext) (simp add: escape_char_def markup_chars_def)

text \<open>
  C6. In the block of an article, the title, the description and the source name
  are each escaped on their own: every \<open>[\<close>, \<open>]\<close>, \<open>_\<close> and \<open>*\<close> of the field gets a
  backslash in front and every other character is kept as it is.
\<close>

theorem fields_escaped:
  assumes "renderable (PDict a)"
  shows "article_block py_str (PDict a) =
           Inr (block_text
                  (escape_spec (field_text (map_of a ''title'') ''No title''))
                  (url_text py_str a)
                  (escape_spec (field_text (map_of a ''description'') ''No description available.''))
                  (escape_spec (field_text (source_name a) ''Unknown Source'')))
         \<and> (\<forall>s. escape_spec s =
               concat (map (\<lambda>c. if c \<in> {CHR ''['', CHR '']'', CHR ''_'', CHR ''*''}
                                  then [CHR 0x5C, c] else [c]) s))"
  using article_block_renderable [OF assms, of py_str]
  by (simp add: escape_spec_def escape_char_cases)

theorem fields_escaped_witness:
  "renderable (PDict [(''title'', PStr ''Tesla [NEW] _MODEL_ *Y*''), (''url'', PStr ''http://x''),
       (''description'', PStr ''a_b''), (''source'', PDict [(''name'', PStr ''[S]'')])])
   \<and> article_block (\<lambda>v. [])
       (PDict [(''title'', PStr ''Tesla [NEW] _MODEL_ *Y*''), (''url'', PStr ''http://x''),
         (''description'', PStr ''a_b''), (''source'', PDict [(''name'', PStr ''[S]'')])])
     = Inr (block_text
         (''Tesla '' @ [CHR 0x5C] @ ''[NEW'' @ [CHR 0x5C] @ ''] '' @ [CHR 0x5C] @ ''_MODEL''
            @ [CHR 0x5C] @ ''_ '' @ [CHR 0x5C] @ ''*Y'' @ [CHR 0x5C] @ ''*'')
         ''http://x''
         (''a'' @ [CHR 0x5C] @ ''_b'')
         ([CHR 0x5C] @ ''[S'' @ [CHR 0x5C] @ '']''))"
  using fields_escaped [of "[(''title'', PStr ''Tesla [NEW] _MODEL_ *Y*''), (''url'', PStr ''http://x''),
       (''description'', PStr ''a_b''), (''source'', PDict [(''name'', PStr ''[S]'')])]" "\<lambda>v. []"]
  by (simp add: field_ok_def field_text_def source_name_def url_text_def)

text \<open>
  The fallback defaults where a block is rendered: in the block of an article that
  can be rendered, a title that is absent, null or empty is shown as "No title",
  such a description as "No description available." and such a source name as
  "Unknown Source".
\<close>

lemma fallback_defaults:
  assumes "renderable (PDict a)"
  shows "(map_of a ''title'' \<in> {None, Some PNone, Some (PStr [])} \<longrightarrow>
           (\<exists>u d s. article_block py_str (PDict a) = Inr (block_text ''No title'' u d s)))
       \<and> (map_of a ''description'' \<in> {None, Some PNone, Some (PStr [])} \<longrightarrow>
           (\<exists>t u s. article_block py_str (PDict a)
                      = Inr (block_text t u ''No description available.'' s)))
       \<and> (source_name a \<in> {None, Some PNone, Some (PStr [])} \<longrightarrow>
           (\<exists>t u d. article_block py_str (PDict a) = Inr (block_text t u d ''Unknown Source'')))"
proof -
  have e: "escape_spec ''No title'' = ''No title''"
    "escape_spec ''No description available.'' = ''No description available.''"
    "escape_spec ''Unknown Source'' = ''Unknown Source''"
    by (simp_all add: escape_spec_def escape_char_def markup_chars_def)
  have f: "\<And>f dflt. f \<in> {None, Some PNone, Some (PStr [])} \<Longrightarrow> field_text f dflt = dflt"
    by (auto simp add: field_text_def)
  show ?thesis
    using article_block_renderable [OF assms, of py_str] e f by auto
qed

lemma fallback_defaults_example:
  "renderable (PDict [(''title'', PNone), (''url'', PStr ''http://x''), (''source'', PDict [(''name'', PStr [])])])
   \<and> article_block (\<lambda>v. [])
        (PDict [(''title'', PNone), (''url'', PStr ''http://x''), (''source'', PDict [(''name'', PStr [])])])
      = Inr (block_text ''No title'' ''http://x'' ''No description available.'' ''Unknown Source'')"
  using fallback_defaults [of "[(''title'', PNone), (''url'', PStr ''http://x''), (''source'', PDict [(''name'', PStr [])])]" "\<lambda>v. []"]
  by (simp add: field_ok_def source_name_def article_block_def and_then_def or_default_def escape_chain_def)

text \<open>
  C7 asks for the default "Unknown Source" whenever the source name is absent. An
  article whose \<open>source\<close> is \<open>null\<close> has no source name, yet no block with the
  default is rendered for it: the \<open>{}\<close> of line 73 stands in for a missing key
  only, so \<open>None.get\<close> raises \<open>AttributeError\<close> and \<open>get_news\<close> returns nothing,
  whereas a null title or description is replaced by its default (lines 75-76).
\<close>

theorem null_source_no_fallback:
  "source_name [(''title'', PStr ''T''), (''url'', PStr ''http://x''),
                (''description'', PStr ''D''), (''source'', PNone)] = None
   \<and> article_block (\<lambda>v. [])
        (PDict [(''title'', PStr ''T''), (''url'', PStr ''http://x''),
                (''description'', PStr ''D''), (''source'', PNone)])
      = Inl AttributeError
   \<and> get_news (Some ''K'') (\<lambda>v. [])
        (\<lambda>u. Some \<lparr>is_success = True, json_value = Some (PDict [(''status'', PStr ''ok''),
           (''articles'', PList [PDict [(''title'', PStr ''T''), (''url'', PStr ''http://x''),
                (''description'', PStr ''D''), (''source'', PNone)]])])\<rparr>) ''tech''
      = Inl AttributeError"
  by (simp add: source_name_def get_news_def fetch_data_def Let_def render_data_def
      render_articles_def article_block_def and_then_def)

subsection \<open>Rendering the list\<close>

lemma block_text_bullet: "take 3 (block_text t u d s) = bullet"
  by (simp add: block_text_def bullet_def)

lemma renderable_block:
  assumes "renderable article"
  shows "\<exists>block. article_block py_str article = Inr block \<and> take 3 block = bullet"
proof -
  obtain a where "article = PDict a"
    using assms by (cases article) simp_all
  then show ?thesis
    using assms article_block_renderable [of a py_str] by (simp add: block_text_bullet)
qed

lemma renderable_blocks:
  "list_all renderable items \<Longrightarrow>
   \<exists>blocks. map (article_block py_str) items = map Inr blocks
     \<and> list_all (\<lambda>b. take 3 b = bullet) blocks"
proof (induction items)
  case Nil
  then show ?case by simp
next
  case (Cons x items)
  then obtain blocks where b: "map (article_block py_str) items = map Inr blocks"
      "list_all (\<lambda>b. take 3 b = bullet) blocks"
    by auto
  from Cons.prems obtain block where "article_block py_str x = Inr block" "take 3 block = bullet"
    using renderable_block [of x py_str] by auto
  with b have "map (article_block py_str) (x # items) = map Inr (block # blocks)
     \<and> list_all (\<lambda>b. take 3 b = bullet) (block # blocks)"
    by simp
  then show ?case by blast
qed

lemma render_loop_blocks:
  "map (article_block py_str) items = map Inr blocks \<Longrightarrow>
   render_loop py_str acc items = Inr (acc @ concat blocks)"
proof (induction items arbitrary: acc blocks)
  case Nil
  then show ?case by simp
next
  case (Cons x items)
  then obtain b bs where "blocks = b # bs" "article_block py_str x = Inr b"
      "map (article_block py_str) items = map Inr bs"
    by (cases blocks) auto
  then show ?case using Cons.IH [of bs "acc @ b"] by simp
qed

lemma get_news_fetched:
  "client_get (request_url api_key (resolve_query topic))
     = Some \<lparr>is_success = True, json_value = Some data\<rparr> \<Longrightarrow>
   get_news api_key py_str client_get topic = render_data py_str (resolve_query topic) data"
  by (simp add: get_news_def fetch_data_def Let_def)

lemma render_data_list:
  "map_of d ''articles'' = Some (PList arts) \<Longrightarrow>
   render_data py_str query (PDict d) =
     (if arts = [] then Inr (no_articles_message query)
      else render_loop py_str [] (take 5 arts))"
  by (simp add: render_data_def render_articles_def)

text \<open>
  C5. For a response whose \<open>articles\<close> list has \<open>n\<close> articles, the output is the
  concatenation of \<open>min n 5\<close> blocks, each beginning with the bullet: the blocks of
  the first five articles of the list, in the order of the list; articles after the
  fifth leave no trace. (With no article at all the output is the "no recent
  articles" message.)
\<close>

theorem first_five_in_order:
  assumes "client_get (request_url api_key (resolve_query topic))
             = Some \<lparr>is_success = True, json_value = Some (PDict d)\<rparr>"
    and "map_of d ''articles'' = Some (PList arts)"
    and "list_all renderable (take 5 arts)"
  shows "\<exists>blocks. length blocks = min (length arts) 5
           \<and> map (article_block py_str) (take 5 arts) = map Inr blocks
           \<and> list_all (\<lambda>b. take 3 b = bullet) blocks
           \<and> get_news api_key py_str client_get topic =
               Inr (if arts = [] then no_articles_message (resolve_query topic) else concat blocks)"
proof -
  obtain blocks where b: "map (article_block py_str) (take 5 arts) = map Inr blocks"
      "list_all (\<lambda>b. take 3 b = bullet) blocks"
    using renderable_blocks [OF assms(3), of py_str] by blast
  have "length (map (article_block py_str) (take 5 arts)) = length (map Inr blocks :: (exn + string) list)"
    using b(1) by simp
  then have len: "length blocks = min (length arts) 5"
    by simp
  have "get_news api_key py_str client_get topic =
          Inr (if arts = [] then no_articles_message (resolve_query topic) else concat blocks)"
    using assms(1) get_news_fetched [of client_get api_key topic "PDict d" py_str]
      render_data_list [OF assms(2), of py_str]
      render_loop_blocks [OF b(1), of "[]"]
    by simp
  with b len show ?thesis by blast
qed

theorem first_five_in_order_witness:
  "list_all renderable (take 5
       [PDict [(''title'', PStr ''a1'')], PDict [(''title'', PStr ''a2'')],
        PDict [(''title'', PStr ''a3'')], PDict [(''title'', PStr ''a4'')],
        PDict [(''title'', PStr ''a5'')], PDict [(''title'', PStr ''a6'')],
        PDict [(''title'', PStr ''a7'')]])
   \<and> (\<exists>blocks. length blocks = 5
        \<and> map (article_block (\<lambda>v. []))
             [PDict [(''title'', PStr ''a1'')], PDict [(''title'', PStr ''a2'')],
              PDict [(''title'', PStr ''a3'')], PDict [(''title'', PStr ''a4'')],
              PDict [(''title'', PStr ''a5'')]] = map Inr blocks
        \<and> get_news (Some ''K'') (\<lambda>v. [])
            (\<lambda>u. Some \<lparr>is_success = True, json_value = Some (PDict [(''articles'', PList
               [PDict [(''title'', PStr ''a1'')], PDict [(''title'', PStr ''a2'')],
                PDict [(''title'', PStr ''a3'')], PDict [(''title'', PStr ''a4'')],
                PDict [(''title'', PStr ''a5'')], PDict [(''title'', PStr ''a6'')],
                PDict [(''title'', PStr ''a7'')]])])\<rparr>) ''ai'' = Inr (concat blocks))"
proof -
  let ?arts = "[PDict [(''title'', PStr ''a1'')], PDict [(''title'', PStr ''a2'')],
        PDict [(''title'', PStr ''a3'')], PDict [(''title'', PStr ''a4'')],
        PDict [(''title'', PStr ''a5'')], PDict [(''title'', PStr ''a6'')],
        PDict [(''title'', PStr ''a7'')]]"
  let ?d = "[(''articles'', PList ?arts)]"
  let ?client = "\<lambda>u::string. Some \<lparr>is_success = True, json_value = Some (PDict ?d)\<rparr>"
  have h1: "?client (request_url (Some ''K'') (resolve_query ''ai''))
      = Some \<lparr>is_success = True, json_value = Some (PDict ?d)\<rparr>"
    by simp
  have h2: "map_of ?d ''articles'' = Some (PList ?arts)"
    by simp
  have h3: "list_all renderable (take 5 ?arts)"
    by (simp add: field_ok_def)
  from first_five_in_order [of ?client "Some ''K''" "''ai''" ?d ?arts "\<lambda>v. []", OF h1 h2 h3]
  obtain blocks where "length blocks = min (length ?arts) 5"
    "map (article_block (\<lambda>v. [])) (take 5 ?arts) = map Inr blocks"
    "get_news (Some ''K'') (\<lambda>v. []) ?client ''ai'' =
       Inr (if ?arts = [] then no_articles_message (resolve_query ''ai'') else concat blocks)"
    by blast
  then have "length blocks = 5
      \<and> map (article_block (\<lambda>v. [])) (take 5 ?arts) = map Inr blocks
      \<and> get_news (Some ''K'') (\<lambda>v. []) ?client ''ai'' = Inr (concat blocks)"
    by simp
  then have "\<exists>blocks. length blocks = 5
      \<and> map (article_block (\<lambda>v. [])) (take 5 ?arts) = map Inr blocks
      \<and> get_news (Some ''K'') (\<lambda>v. []) ?client ''ai'' = Inr (concat blocks)"
    by blast
  then show ?thesis using h3 by simp
qed

lemma no_articles_not_block: "no_articles_message query \<noteq> block_text t u d s @ rest"
  by (simp add: no_articles_message_def block_text_def warning_sign_def bullet_def)

text \<open>
  C8. When the response has no articles (the list is absent or empty), the output
  is the fixed message with the query between apostrophes, the query standing there
  as it is, with no backslash added; no article block is part of it.
\<close>

theorem empty_sequence_message:
  assumes "client_get (request_url api_key (resolve_query topic))
             = Some \<lparr>is_success = True, json_value = Some (PDict d)\<rparr>"
    and "map_of d ''articles'' = None \<or> map_of d ''articles'' = Some (PList [])"
  shows "get_news api_key py_str client_get topic =
           Inr (warning_sign @ '' No recent articles found for '' @ [CHR 0x27]
                  @ resolve_query topic @ [CHR 0x27] @ ''.'')
       \<and> render_articles py_str query (PList []) =
           Inr (warning_sign @ '' No recent articles found for '' @ [CHR 0x27]
                  @ query @ [CHR 0x27] @ ''.'')
       \<and> (\<forall>t u e s rest. no_articles_message query \<noteq> block_text t u e s @ rest)"
proof -
  have "render_data py_str (resolve_query topic) (PDict d)
          = Inr (no_articles_message (resolve_query topic))"
    using assms(2) by (auto simp add: render_data_def render_articles_def)
  then have "get_news api_key py_str client_get topic
          = Inr (no_articles_message (resolve_query topic))"
    using assms(1) get_news_fetched [of client_get api_key topic "PDict d" py_str] by simp
  moreover have "render_articles py_str query (PList []) = Inr (no_articles_message query)"
    by (simp add: render_articles_def)
  ultimately show ?thesis
    using no_articles_not_block [of query] by (simp add: no_articles_message_def)
qed

theorem empty_sequence_message_witness:
  "(map_of [(''status'', PStr ''ok''), (''articles'', PList [])] ''articles'' = None
     \<or> map_of [(''status'', PStr ''ok''), (''articles'', PList [])] ''articles'' = Some (PList []))
   \<and> get_news (Some ''K'') (\<lambda>v. [])
        (\<lambda>u. Some \<lparr>is_success = True,
           json_value = Some (PDict [(''status'', PStr ''ok''), (''articles'', PList [])])\<rparr>) ''a_b*[c]''
      = Inr (warning_sign @ '' No recent articles found for '' @ [CHR 0x27]
                  @ ''a_b*[c]'' @ [CHR 0x27] @ ''.'')"
  using empty_sequence_message [of "\<lambda>u. Some \<lparr>is_success = True,
           json_value = Some (PDict [(''status'', PStr ''ok''), (''articles'', PList [])])\<rparr>"
         "Some ''K''" "''a_b*[c]''" "[(''status'', PStr ''ok''), (''articles'', PList [])]" "\<lambda>v. []"]
  by (simp add: resolve_query_def query_map_def)

end
